theory Spec2Isabelle
  imports Complex_Main
begin

section \<open>Python values and exceptions\<close>

text \<open>
  The two pipelines of the repository (customer churn: \<^verbatim>\<open>classification-ml-model\<close>;
  house price: \<^verbatim>\<open>sample-ml-model\<close>) are Python scripts over numpy, pandas, scikit-learn
  and joblib. Python floats are modelled as \<^typ>\<open>real\<close>, Python integers as \<^typ>\<open>int\<close>.

  An exception is a value: its class and the text that \<^verbatim>\<open>str(e)\<close> returns. Every class
  below is a subclass of Python's \<^verbatim>\<open>Exception\<close>; these are the classes that the
  operations used by the scripts raise.
\<close>

datatype exc_class =
  FileNotFoundError | PermissionError | UnpicklingError | UnicodeDecodeError
  | KeyError | TypeError | AttributeError | IndexError | ValueError

datatype exn = Exn exc_class string

fun str_exn :: "exn \<Rightarrow> string" where
  "str_exn (Exn c m) = m"

text \<open>Scalar values of a feature mapping and of a prediction result.\<close>

datatype pyval = VInt int | VFloat real | VStr string

text \<open>
  A Python \<^verbatim>\<open>dict\<close> with string keys keeps its insertion order: an association list
  whose keys are distinct. A one-row pandas \<^verbatim>\<open>DataFrame\<close> is the same thing: its ordered
  columns, each with the one value of the row.
\<close>

type_synonym pydict = "(string \<times> pyval) list"

text \<open>Sequencing of calls that may raise: the first exception ends the block.\<close>

definition and_then :: "exn + 'a \<Rightarrow> ('a \<Rightarrow> exn + 'b) \<Rightarrow> exn + 'b" where
  "and_then r f = (case r of Inl e \<Rightarrow> Inl e | Inr v \<Rightarrow> f v)"

text \<open>\<^verbatim>\<open>xs[i]\<close> on a numpy array, for the constant indices 0 and 1 of the scripts.\<close>

definition np_index :: "'a list \<Rightarrow> nat \<Rightarrow> exn + 'a" where
  "np_index xs i =
     (if i < length xs then Inr (xs ! i)
      else Inl (Exn IndexError ''index is out of bounds for axis 0''))"

section \<open>Metadata records and Python objects\<close>

text \<open>
  \<^verbatim>\<open>feature_info\<close> of \<^verbatim>\<open>train_churn_model.py\<close> (lines 137-142): the dictionary with the
  keys \<^verbatim>\<open>feature_names\<close>, \<^verbatim>\<open>model_type\<close>, \<^verbatim>\<open>accuracy\<close>, \<^verbatim>\<open>feature_importance\<close>.
\<close>

record churn_info =
  feature_names :: "string list"
  model_type :: string
  accuracy :: real
  feature_importance :: "(string \<times> real) list"

text \<open>
  \<^verbatim>\<open>model_info\<close> of \<^verbatim>\<open>train_model.py\<close> (lines 100-121). Its key \<^verbatim>\<open>model_type\<close> is the
  field \<open>house_model_type\<close> here (the name is taken by the record above); the nested
  dictionary \<^verbatim>\<open>performance\<close> is the pair of fields \<open>r2_score\<close>, \<open>rmse\<close>.
\<close>

record house_info =
  house_model_type :: string
  features :: "string list"
  feature_descriptions :: "(string \<times> string) list"
  target :: string
  target_description :: string
  r2_score :: real
  rmse :: real
  sample_input :: "(string \<times> int) list"

text \<open>
  The fitted scikit-learn classifier is opaque: its two methods, applied to the one-row
  frame they are given, return an array (one entry per row) or raise.
\<close>

record classifier =
  predict :: "pydict \<Rightarrow> exn + int list"
  predict_proba :: "pydict \<Rightarrow> exn + real list list"

text \<open>
  What a variable of the scripts may hold where a model or its metadata is expected:
  \<^verbatim>\<open>None\<close> (as \<^verbatim>\<open>load_model\<close> returns on failure), a fitted model, or a metadata
  dictionary of either pipeline.
\<close>

datatype 'm pyobj = PyNone | PyModel 'm | PyChurnInfo churn_info | PyHouseInfo house_info

section \<open>The churn predictor (test\_churn\_model.py, predict\_churn)\<close>

text \<open>\<^verbatim>\<open>model_info['feature_names']\<close>.\<close>

fun getitem_feature_names :: "'m pyobj \<Rightarrow> exn + string list" where
  "getitem_feature_names (PyChurnInfo i) = Inr (feature_names i)"
| "getitem_feature_names (PyHouseInfo i) = Inl (Exn KeyError ''feature_names'')"
| "getitem_feature_names PyNone =
     Inl (Exn TypeError ''NoneType object is not subscriptable'')"
| "getitem_feature_names (PyModel m) =
     Inl (Exn TypeError ''object is not subscriptable'')"

text \<open>
  \<^verbatim>\<open>input_df[names]\<close>: pandas selects the named columns in the order of \<open>names\<close> and
  raises \<^verbatim>\<open>KeyError\<close>, listing the names that are not columns, when one is missing.
  Columns that are not named are left out of the result.

  The text of the exception below is a plain rendering of the list of missing names. It
  stands for the text that pandas and Python produce, which is theirs and not the
  repository's (pandas words the case where no name is a column differently, and
  \<^verbatim>\<open>str\<close> of a \<^verbatim>\<open>KeyError\<close> puts its message in quotes). The statements below speak of
  the message of the exception that the selection raises, never of its wording.
\<close>

fun repr_names :: "string list \<Rightarrow> string" where
  "repr_names [] = ''''"
| "repr_names [n] = [CHR 0x27] @ n @ [CHR 0x27]"
| "repr_names (n # ns) = [CHR 0x27] @ n @ [CHR 0x27] @ '', '' @ repr_names ns"

definition select_columns :: "pydict \<Rightarrow> string list \<Rightarrow> exn + pydict" where
  "select_columns df names =
     (case filter (\<lambda>n. map_of df n = None) names of
        [] \<Rightarrow> Inr (map (\<lambda>n. (n, the (map_of df n))) names)
      | missing \<Rightarrow> Inl (Exn KeyError (''['' @ repr_names missing @ ''] not in index'')))"

text \<open>\<^verbatim>\<open>model.predict(input_df)\<close> and \<^verbatim>\<open>model.predict_proba(input_df)\<close>.\<close>

fun call_predict :: "classifier pyobj \<Rightarrow> pydict \<Rightarrow> exn + int list" where
  "call_predict (PyModel m) df = predict m df"
| "call_predict _ df = Inl (Exn AttributeError ''object has no attribute predict'')"

fun call_predict_proba :: "classifier pyobj \<Rightarrow> pydict \<Rightarrow> exn + real list list" where
  "call_predict_proba (PyModel m) df = predict_proba m df"
| "call_predict_proba _ df = Inl (Exn AttributeError ''object has no attribute predict_proba'')"

text \<open>Lines 37-43: the risk level of a churn probability.\<close>

definition risk_level :: "real \<Rightarrow> string" where
  "risk_level churn_probability =
     (if churn_probability > 0.7 then ''High''
      else if churn_probability > 0.3 then ''Medium''
      else ''Low'')"


text \<open>
  The body of the \<^verbatim>\<open>try\<close> block of \<^verbatim>\<open>predict_churn\<close> (lines 28-51). The one-row frame
  \<^verbatim>\<open>pd.DataFrame([customer_data])\<close> of line 29 has the keys of the dictionary as its
  columns: it is \<open>customer_data\<close> itself. Each later line is one step below, in the
  order in which Python evaluates it.
\<close>

definition predict_churn_body :: "classifier pyobj \<Rightarrow> classifier pyobj \<Rightarrow> pydict \<Rightarrow> exn + pydict" where
  "predict_churn_body model model_info customer_data =
     and_then (getitem_feature_names model_info) (\<lambda>names.
     and_then (select_columns customer_data names) (\<lambda>input_df.
     and_then (call_predict model input_df) (\<lambda>predictions.
     and_then (np_index predictions 0) (\<lambda>prediction.
     and_then (call_predict_proba model input_df) (\<lambda>probas.
     and_then (np_index probas 0) (\<lambda>probabilities.
     and_then (np_index probabilities 1) (\<lambda>churn_probability.
     and_then (np_index probabilities 0) (\<lambda>no_churn_probability.
       Inr [(''prediction'', VInt prediction),
            (''churn_probability'', VFloat churn_probability),
            (''no_churn_probability'', VFloat no_churn_probability),
            (''risk_level'', VStr (risk_level churn_probability)),
            (''prediction_label'', VStr (if prediction = 1 then ''Churn'' else ''No Churn''))]))))))))"

text \<open>
  \<^verbatim>\<open>predict_churn\<close>: the \<^verbatim>\<open>try\<close> block with its handler \<^verbatim>\<open>except Exception as e\<close>
  (lines 53-54), which returns \<^verbatim>\<open>{'error': str(e)}\<close>.
\<close>

definition predict_churn :: "classifier pyobj \<Rightarrow> classifier pyobj \<Rightarrow> pydict \<Rightarrow> pydict" where
  "predict_churn model model_info customer_data =
     (case predict_churn_body model model_info customer_data of
        Inr result \<Rightarrow> result
      | Inl e \<Rightarrow> [(''error'', VStr (str_exn e))])"

section \<open>The random source (numpy.random)\<close>

text \<open>
  numpy's global generator is a state \<open>'g\<close> that every draw reads and advances. The
  generator itself is not part of the repository: it is a parameter, the record of its
  seeding function and of one draw from each distribution the scripts use. Nothing is
  assumed of the values drawn.
\<close>

record 'g np_random =
  seed_state :: "nat \<Rightarrow> 'g"
  draw_randint :: "int \<Rightarrow> int \<Rightarrow> 'g \<Rightarrow> int \<times> 'g"
  draw_uniform :: "real \<Rightarrow> real \<Rightarrow> 'g \<Rightarrow> real \<times> 'g"
  draw_normal :: "real \<Rightarrow> real \<Rightarrow> 'g \<Rightarrow> real \<times> 'g"
  draw_choice :: "int list \<Rightarrow> real list \<Rightarrow> 'g \<Rightarrow> int \<times> 'g"
  draw_binomial :: "nat \<Rightarrow> real \<Rightarrow> 'g \<Rightarrow> int \<times> 'g"

text \<open>A computation on the generator state that may raise.\<close>

type_synonym ('g, 'a) rng = "'g \<Rightarrow> exn + ('a \<times> 'g)"

definition rng_then :: "('g, 'a) rng \<Rightarrow> ('a \<Rightarrow> ('g, 'b) rng) \<Rightarrow> ('g, 'b) rng" where
  "rng_then m f g = (case m g of Inl e \<Rightarrow> Inl e | Inr (a, g') \<Rightarrow> f a g')"

definition rng_return :: "'a \<Rightarrow> ('g, 'a) rng" where
  "rng_return a g = Inr (a, g)"

text \<open>An array of \<open>k\<close> values: \<open>k\<close> successive draws.\<close>

fun draws :: "('g \<Rightarrow> 'a \<times> 'g) \<Rightarrow> nat \<Rightarrow> 'g \<Rightarrow> 'a list \<times> 'g" where
  "draws d 0 g = ([], g)"
| "draws d (Suc k) g =
     (case d g of (x, g1) \<Rightarrow> (case draws d k g1 of (xs, g2) \<Rightarrow> (x # xs, g2)))"

text \<open>One draw for each entry of an array of parameters.\<close>

fun draws_each :: "('p \<Rightarrow> 'g \<Rightarrow> 'a \<times> 'g) \<Rightarrow> 'p list \<Rightarrow> 'g \<Rightarrow> 'a list \<times> 'g" where
  "draws_each d [] g = ([], g)"
| "draws_each d (p # ps) g =
     (case d p g of (x, g1) \<Rightarrow> (case draws_each d ps g1 of (xs, g2) \<Rightarrow> (x # xs, g2)))"

text \<open>
  The \<^verbatim>\<open>size\<close> argument \<open>sz\<close> of numpy's samplers: a negative size raises \<^verbatim>\<open>ValueError\<close>,
  size 0 gives the empty array. numpy also refuses a size beyond the range of its array
  index type (from 2 to the power 63 on at the latest), and a large array may not fit in memory:
  neither limit is modelled here, and the statement of which sizes are accepted (claim C4)
  is made for sizes below 2 to the power 31 only.
\<close>

definition sized :: "('g \<Rightarrow> 'a \<times> 'g) \<Rightarrow> int \<Rightarrow> ('g, 'a list) rng" where
  "sized d sz g =
     (if sz < 0 then Inl (Exn ValueError ''negative dimensions are not allowed'')
      else Inr (draws d (nat sz) g))"

definition np_random_seed :: "'g np_random \<Rightarrow> nat \<Rightarrow> ('g, unit) rng" where
  "np_random_seed R s g = Inr ((), seed_state R s)"

definition np_random_randint :: "'g np_random \<Rightarrow> int \<Rightarrow> int \<Rightarrow> int \<Rightarrow> ('g, int list) rng" where
  "np_random_randint R low high sz = sized (draw_randint R low high) sz"

definition np_random_uniform :: "'g np_random \<Rightarrow> real \<Rightarrow> real \<Rightarrow> int \<Rightarrow> ('g, real list) rng" where
  "np_random_uniform R low high sz = sized (draw_uniform R low high) sz"

definition np_random_normal :: "'g np_random \<Rightarrow> real \<Rightarrow> real \<Rightarrow> int \<Rightarrow> ('g, real list) rng" where
  "np_random_normal R loc scale sz = sized (draw_normal R loc scale) sz"

definition np_random_choice :: "'g np_random \<Rightarrow> int list \<Rightarrow> int \<Rightarrow> real list \<Rightarrow> ('g, int list) rng" where
  "np_random_choice R a sz p = sized (draw_choice R a p) sz"

definition np_random_binomial :: "'g np_random \<Rightarrow> nat \<Rightarrow> real list \<Rightarrow> ('g, int list) rng" where
  "np_random_binomial R n ps g = Inr (draws_each (draw_binomial R n) ps g)"

section \<open>The data synthesizers\<close>

text \<open>
  A pandas \<^verbatim>\<open>DataFrame\<close> built from a dictionary of arrays: its named columns, in order.
  Row \<open>i\<close> of the dataset is entry \<open>i\<close> of every column.
\<close>

datatype column = IntCol "int list" | FloatCol "real list"

type_synonym dataframe = "(string \<times> column) list"

text \<open>\<^verbatim>\<open>generate_sample_data\<close> of \<^verbatim>\<open>train_model.py\<close> (lines 15-51).\<close>

definition generate_sample_data :: "'g np_random \<Rightarrow> int \<Rightarrow> ('g, dataframe) rng" where
  "generate_sample_data R n_samples =
     rng_then (np_random_seed R 42) (\<lambda>_.
     rng_then (np_random_randint R 1 6 n_samples) (\<lambda>bedrooms.
     rng_then (np_random_randint R 1 4 n_samples) (\<lambda>bathrooms.
     rng_then (np_random_randint R 800 4000 n_samples) (\<lambda>sqft.
     rng_then (np_random_randint R 0 50 n_samples) (\<lambda>age.
     rng_then (np_random_normal R 0 20000 n_samples) (\<lambda>noise.
       let base_price = 50000;
           price_per_bedroom = 25000;
           price_per_bathroom = 15000;
           price_per_sqft = 100;
           age_depreciation = 1000;
           prices = map (\<lambda>(b, ba, s, a, z).
                       real_of_int (base_price + b * price_per_bedroom
                         + ba * price_per_bathroom + s * price_per_sqft
                         - a * age_depreciation) + z)
                     (zip bedrooms (zip bathrooms (zip sqft (zip age noise))));
           prices = map (\<lambda>p. max p 50000) prices
       in rng_return
            [(''bedrooms'', IntCol bedrooms), (''bathrooms'', IntCol bathrooms),
             (''sqft'', IntCol sqft), (''age'', IntCol age),
             (''price'', FloatCol prices)]))))))"

text \<open>\<^verbatim>\<open>generate_synthetic_data\<close> of \<^verbatim>\<open>train_churn_model.py\<close> (lines 17-64).\<close>

definition np_clip :: "real \<Rightarrow> real \<Rightarrow> real \<Rightarrow> real" where
  "np_clip x lo hi = min (max x lo) hi"

definition generate_synthetic_data :: "'g np_random \<Rightarrow> int \<Rightarrow> ('g, dataframe) rng" where
  "generate_synthetic_data R n_samples =
     rng_then (np_random_seed R 42) (\<lambda>_.
     rng_then (np_random_randint R 18 81 n_samples) (\<lambda>age.
     rng_then (np_random_randint R 1 73 n_samples) (\<lambda>tenure.
     rng_then (np_random_uniform R 20 120 n_samples) (\<lambda>monthly_charges.
     rng_then (np_random_normal R 0 100 n_samples) (\<lambda>noise.
       let total_charges = map (\<lambda>(m, t, z). m * real_of_int t + z)
                             (zip monthly_charges (zip tenure noise));
           total_charges = map (\<lambda>c. max c 20) total_charges
       in
     rng_then (np_random_choice R [0, 1, 2] n_samples [0.5, 0.3, 0.2]) (\<lambda>contract_type.
     rng_then (np_random_choice R [0, 1, 2, 3] n_samples [0.4, 0.2, 0.2, 0.2]) (\<lambda>payment_method.
     rng_then (np_random_choice R [0, 1, 2] n_samples [0.4, 0.4, 0.2]) (\<lambda>internet_service.
     rng_then (np_random_choice R [0, 1] n_samples [0.6, 0.4]) (\<lambda>tech_support.
       let data = [(''age'', IntCol age), (''tenure'', IntCol tenure),
                   (''monthly_charges'', FloatCol monthly_charges),
                   (''total_charges'', FloatCol total_charges),
                   (''contract_type'', IntCol contract_type),
                   (''payment_method'', IntCol payment_method),
                   (''internet_service'', IntCol internet_service),
                   (''tech_support'', IntCol tech_support)];
           churn_probability = map (\<lambda>(t, c, p, m, a, s, i).
                       0.1
                       + 0.3 * of_bool (t < 6)
                       + 0.2 * of_bool (c = 0)
                       + 0.15 * of_bool (p = 0)
                       + 0.1 * of_bool (m > 80)
                       + 0.1 * of_bool (a < 30)
                       + - 0.15 * of_bool (s = 1)
                       + 0.1 * of_bool (i = 1))
                     (zip tenure (zip contract_type (zip payment_method (zip monthly_charges
                       (zip age (zip tech_support internet_service))))));
           churn_probability = map (\<lambda>p. np_clip p 0 1) churn_probability
       in
     rng_then (np_random_binomial R 1 churn_probability) (\<lambda>churn.
       rng_return (data @ [(''churn'', IntCol churn)])))))))))))"

section \<open>Artifact files: saving and loading\<close>

text \<open>
  What a file holds: a joblib pickle of an object, the JSON document of the house-price
  metadata, or bytes that are neither (some other text, say).
\<close>

datatype 'm content = Pickle "'m pyobj" | Json house_info | Unreadable

text \<open>
  The part of the world the scripts act on: the files of the working directory, the paths
  that cannot be written (a write there raises \<^verbatim>\<open>PermissionError\<close>), and what has been
  printed. A statement returns its result or the exception it raises, and the world as it
  has left it: what was written before an exception stays written.
\<close>

record 'm world =
  files :: "string \<Rightarrow> 'm content option"
  unwritable :: "string \<Rightarrow> bool"
  stdout :: "string list"

type_synonym ('m, 'a) io = "'m world \<Rightarrow> (exn + 'a) \<times> 'm world"

definition io_then :: "('m, 'a) io \<Rightarrow> ('a \<Rightarrow> ('m, 'b) io) \<Rightarrow> ('m, 'b) io" where
  "io_then m f w = (case m w of (Inl e, w') \<Rightarrow> (Inl e, w') | (Inr a, w') \<Rightarrow> f a w')"

definition io_return :: "'a \<Rightarrow> ('m, 'a) io" where
  "io_return a w = (Inr a, w)"

definition py_print :: "string \<Rightarrow> ('m, unit) io" where
  "py_print s w = (Inr (), w\<lparr>stdout := stdout w @ [s]\<rparr>)"

text \<open>\<^verbatim>\<open>try: ... except FileNotFoundError as e: ...\<close>; any other exception propagates.\<close>

definition except_FileNotFoundError :: "('m, 'a) io \<Rightarrow> (exn \<Rightarrow> ('m, 'a) io) \<Rightarrow> ('m, 'a) io" where
  "except_FileNotFoundError body handler w =
     (case body w of
        (Inl (Exn FileNotFoundError m), w') \<Rightarrow> handler (Exn FileNotFoundError m) w'
      | r \<Rightarrow> r)"

definition no_such_file :: "string \<Rightarrow> exn" where
  "no_such_file path =
     Exn FileNotFoundError (''[Errno 2] No such file or directory: '' @ [CHR 0x27] @ path @ [CHR 0x27])"

definition write_file :: "string \<Rightarrow> 'm content \<Rightarrow> ('m, unit) io" where
  "write_file path c w =
     (if unwritable w path
      then (Inl (Exn PermissionError (''[Errno 13] Permission denied: '' @ [CHR 0x27] @ path @ [CHR 0x27])), w)
      else (Inr (), w\<lparr>files := (files w)(path \<mapsto> c)\<rparr>))"

text \<open>\<^verbatim>\<open>joblib.dump(obj, path)\<close> and \<^verbatim>\<open>joblib.load(path)\<close>.\<close>

definition joblib_dump :: "'m pyobj \<Rightarrow> string \<Rightarrow> ('m, unit) io" where
  "joblib_dump obj path = write_file path (Pickle obj)"

definition joblib_load :: "string \<Rightarrow> ('m, 'm pyobj) io" where
  "joblib_load path w =
     (case files w path of
        None \<Rightarrow> (Inl (no_such_file path), w)
      | Some (Pickle obj) \<Rightarrow> (Inr obj, w)
      | Some _ \<Rightarrow> (Inl (Exn UnpicklingError ''invalid load key''), w))"

text \<open>
  \<^verbatim>\<open>with open(path, 'w') as f: json.dump(info, f, indent=2)\<close> and
  \<^verbatim>\<open>with open(path, 'r') as f: info = json.load(f)\<close>.
\<close>

definition json_dump_file :: "house_info \<Rightarrow> string \<Rightarrow> ('m, unit) io" where
  "json_dump_file info path = write_file path (Json info)"

definition json_load_file :: "string \<Rightarrow> ('m, 'm pyobj) io" where
  "json_load_file path w =
     (case files w path of
        None \<Rightarrow> (Inl (no_such_file path), w)
      | Some (Json info) \<Rightarrow> (Inr (PyHouseInfo info), w)
      | Some (Pickle obj) \<Rightarrow> (Inl (Exn UnicodeDecodeError ''utf-8 codec cannot decode byte 0x80''), w)
      | Some Unreadable \<Rightarrow> (Inl (Exn ValueError ''Expecting value: line 1 column 1 (char 0)''), w))"

text \<open>The emoji of the printed messages, as their UTF-8 bytes.\<close>

definition emoji_cross_mark :: string where
  "emoji_cross_mark = [CHR 0xE2, CHR 0x9D, CHR 0x8C]"

definition emoji_wrench :: string where
  "emoji_wrench = [CHR 0xF0, CHR 0x9F, CHR 0x94, CHR 0xA7]"

definition emoji_floppy_disk :: string where
  "emoji_floppy_disk = [CHR 0xF0, CHR 0x9F, CHR 0x92, CHR 0xBE]"

definition emoji_clipboard :: string where
  "emoji_clipboard = [CHR 0xF0, CHR 0x9F, CHR 0x93, CHR 0x8B]"

subsection \<open>The churn pipeline\<close>

text \<open>\<^verbatim>\<open>feature_columns\<close> of \<^verbatim>\<open>train_model\<close> (\<^verbatim>\<open>train_churn_model.py\<close>, lines 78-81).\<close>

definition feature_columns :: "string list" where
  "feature_columns =
     [''age'', ''tenure'', ''monthly_charges'', ''total_charges'',
      ''contract_type'', ''payment_method'', ''internet_service'', ''tech_support'']"

text \<open>
  Lines 131-145 of \<^verbatim>\<open>train_model\<close> in \<^verbatim>\<open>train_churn_model.py\<close>: the model and its metadata
  are written. The fitted \<open>model\<close>, its \<open>accuracy\<close> and the sorted importance records
  (\<^verbatim>\<open>feature_importance.to_dict('records')\<close>) come from the lines above.
\<close>

definition train_model_save_churn :: "'m \<Rightarrow> real \<Rightarrow> (string \<times> real) list \<Rightarrow> ('m, unit) io" where
  "train_model_save_churn model acc importance_records =
     (let model_path = ''customer_churn_model.pkl'' in
      io_then (joblib_dump (PyModel model) model_path) (\<lambda>_.
      io_then (py_print ([CHR 0x0A] @ emoji_floppy_disk @ '' Model saved to: '' @ model_path)) (\<lambda>_.
      let feature_info = \<lparr>feature_names = feature_columns,
                          model_type = ''RandomForestClassifier'',
                          accuracy = acc,
                          feature_importance = importance_records\<rparr> in
      io_then (joblib_dump (PyChurnInfo feature_info) ''model_info.pkl'') (\<lambda>_.
      py_print (emoji_clipboard @ '' Model info saved to: model_info.pkl'')))))"

text \<open>\<^verbatim>\<open>load_model\<close> of \<^verbatim>\<open>test_churn_model.py\<close> (lines 14-23).\<close>

definition load_model_churn :: "('m, 'm pyobj \<times> 'm pyobj) io" where
  "load_model_churn =
     except_FileNotFoundError
       (io_then (joblib_load ''customer_churn_model.pkl'') (\<lambda>model.
        io_then (joblib_load ''model_info.pkl'') (\<lambda>model_info.
        io_return (model, model_info))))
       (\<lambda>e.
        io_then (py_print (emoji_cross_mark @ '' Model file not found: '' @ str_exn e)) (\<lambda>_.
        io_then (py_print (emoji_wrench
           @ '' Please run 'python train_churn_model.py' first to create the model.'')) (\<lambda>_.
        io_return (PyNone, PyNone))))"

subsection \<open>The house-price pipeline\<close>

text \<open>
  Lines 94-126 of \<^verbatim>\<open>train_model\<close> in \<^verbatim>\<open>train_model.py\<close>. The fitted \<open>model\<close> and the
  metrics \<open>r2\<close>, \<open>mse\<close> come from the lines above; \<open>features\<close> is the list of line 68.
\<close>

definition train_model_save_house :: "'m \<Rightarrow> real \<Rightarrow> real \<Rightarrow> ('m, unit) io" where
  "train_model_save_house model r2 mse =
     (let model_filename = ''house_price_model.pkl'' in
      io_then (joblib_dump (PyModel model) model_filename) (\<lambda>_.
      io_then (py_print ([CHR 0x0A] @ emoji_floppy_disk @ '' Model saved as: '' @ model_filename)) (\<lambda>_.
      let model_info = \<lparr>house_model_type = ''LinearRegression'',
                        features = [''bedrooms'', ''bathrooms'', ''sqft'', ''age''],
                        feature_descriptions =
                          [(''bedrooms'', ''Number of bedrooms (1-5)''),
                           (''bathrooms'', ''Number of bathrooms (1-3)''),
                           (''sqft'', ''Square footage (800-4000)''),
                           (''age'', ''Age of house in years (0-50)'')],
                        target = ''price'',
                        target_description = ''House price in USD'',
                        r2_score = r2,
                        rmse = sqrt mse,
                        sample_input =
                          [(''bedrooms'', 3), (''bathrooms'', 2), (''sqft'', 1500), (''age'', 10)]\<rparr> in
      io_then (json_dump_file model_info ''model_info.json'') (\<lambda>_.
      py_print (emoji_clipboard @ '' Model info saved as: model_info.json'')))))"

text \<open>\<^verbatim>\<open>load_model\<close> of \<^verbatim>\<open>test_model.py\<close> (lines 10-20).\<close>

definition load_model_house :: "('m, 'm pyobj \<times> 'm pyobj) io" where
  "load_model_house =
     except_FileNotFoundError
       (io_then (joblib_load ''house_price_model.pkl'') (\<lambda>model.
        io_then (json_load_file ''model_info.json'') (\<lambda>model_info.
        io_return (model, model_info))))
       (\<lambda>e.
        io_then (py_print (emoji_cross_mark @ '' Error: '' @ str_exn e)) (\<lambda>_.
        io_then (py_print ''Please run 'python train_model.py' first to create the model.'') (\<lambda>_.
        io_return (PyNone, PyNone))))"

section \<open>The house-price predictions (test\_model.py)\<close>




section \<open>Concrete models and worlds for the examples\<close>

text \<open>
  A small classifier over the schema \<open>[age, tenure]\<close>. It reads its frame by position:
  the second column is the tenure, whatever its name.
\<close>

definition demo_classifier :: classifier where
  "demo_classifier =
     \<lparr>predict = (\<lambda>df. case map snd df of
                   [VInt a, VInt t] \<Rightarrow> Inr [if t < 6 then 1 else 0]
                 | _ \<Rightarrow> Inl (Exn ValueError ''X has a wrong number of features'')),
      predict_proba = (\<lambda>df. case map snd df of
                   [VInt a, VInt t] \<Rightarrow> Inr [if t < 6 then [0.3, 0.7] else [0.9, 0.1]]
                 | _ \<Rightarrow> Inl (Exn ValueError ''X has a wrong number of features''))\<rparr>"

definition demo_info :: churn_info where
  "demo_info = \<lparr>feature_names = [''age'', ''tenure''], model_type = ''RandomForestClassifier'',
                 accuracy = 0.8, feature_importance = [(''tenure'', 0.6), (''age'', 0.4)]\<rparr>"

text \<open>A linear price model, standing for the fitted regressor of the house pipeline.\<close>

definition demo_regressor :: "int list \<Rightarrow> real" where
  "demo_regressor xs = 50000 + real_of_int (sum_list (map2 (*) [25000, 15000, 100, - 1000] xs))"


text \<open>
  A generator whose state is a counter. Its normal draws lie far below the mean, so that
  the floors of the synthesizers are reached.
\<close>

definition demo_random :: "nat np_random" where
  "demo_random =
     \<lparr>seed_state = (\<lambda>s. s),
      draw_randint = (\<lambda>low high g. (low + int g mod (high - low), Suc g)),
      draw_uniform = (\<lambda>low high g. (low + (high - low) * real (g mod 10) / 10, Suc g)),
      draw_normal = (\<lambda>loc scale g. (loc - scale * 50 * real (g mod 7), Suc g)),
      draw_choice = (\<lambda>a p g. (a ! (g mod length a), Suc g)),
      draw_binomial = (\<lambda>n p g. (if real (g mod 10) < p * 10 then int n else 0, Suc g))\<rparr>"

text \<open>
  Three working directories: an empty one; one whose model file is not a pickle and
  whose metadata file is missing; an empty one in which \<^verbatim>\<open>model_info.pkl\<close> cannot be
  written.
\<close>

definition empty_directory :: "'m world" where
  "empty_directory = \<lparr>files = Map.empty, unwritable = (\<lambda>p. False), stdout = []\<rparr>"

definition damaged_model_file :: "classifier world" where
  "damaged_model_file =
     \<lparr>files = [''customer_churn_model.pkl'' \<mapsto> Unreadable],
      unwritable = (\<lambda>p. False), stdout = []\<rparr>"

definition protected_model_info :: "classifier world" where
  "protected_model_info =
     \<lparr>files = Map.empty, unwritable = (\<lambda>p. p = ''model_info.pkl''), stdout = []\<rparr>"

text \<open>Two directories that hold a model file and no metadata file.\<close>

definition churn_model_only :: "classifier world" where
  "churn_model_only =
     \<lparr>files = [''customer_churn_model.pkl'' \<mapsto> Pickle (PyModel demo_classifier)],
      unwritable = (\<lambda>p. False), stdout = []\<rparr>"

definition house_model_only :: "(int list \<Rightarrow> real) world" where
  "house_model_only =
     \<lparr>files = [''house_price_model.pkl'' \<mapsto> Pickle (PyModel demo_regressor)],
      unwritable = (\<lambda>p. False), stdout = []\<rparr>"

text \<open>The two lines that the handlers of \<^verbatim>\<open>load_model\<close> print for a missing \<open>path\<close>.\<close>

definition not_found_report_churn :: "string \<Rightarrow> string list" where
  "not_found_report_churn path =
     [emoji_cross_mark @ '' Model file not found: '' @ str_exn (no_such_file path),
      emoji_wrench @ '' Please run 'python train_churn_model.py' first to create the model.'']"

definition not_found_report_house :: "string \<Rightarrow> string list" where
  "not_found_report_house path =
     [emoji_cross_mark @ '' Error: '' @ str_exn (no_such_file path),
      ''Please run 'python train_model.py' first to create the model.'']"

section \<open>The predictor: lemmas\<close>

text \<open>Only the values under the names of the schema reach the model.\<close>

lemma select_columns_cong:
  assumes "\<forall>n\<in>set names. map_of d n = map_of d' n"
  shows "select_columns d names = select_columns d' names"
proof -
  have f: "filter (\<lambda>n. map_of d n = None) names = filter (\<lambda>n. map_of d' n = None) names"
    using assms by (intro filter_cong) auto
  have m: "map (\<lambda>n. (n, the (map_of d n))) names = map (\<lambda>n. (n, the (map_of d' n))) names"
    using assms by (intro map_cong) auto
  show ?thesis unfolding select_columns_def f m ..
qed

lemma predict_churn_cong:
  assumes "\<And>i. model_info = PyChurnInfo i \<Longrightarrow> \<forall>n\<in>set (feature_names i). map_of d n = map_of d' n"
  shows "predict_churn model model_info d = predict_churn model model_info d'"
proof (cases model_info)
  case (PyChurnInfo i)
  then have "select_columns d (feature_names i) = select_columns d' (feature_names i)"
    using assms select_columns_cong by blast
  then show ?thesis
    by (simp add: predict_churn_def predict_churn_body_def PyChurnInfo and_then_def)
qed (simp_all add: predict_churn_def predict_churn_body_def and_then_def)

lemma map_of_filter_key:
  "P k \<Longrightarrow> map_of (filter (\<lambda>(k, v). P k) d) k = map_of d k"
  by (induction d) auto

lemma select_columns_missing:
  assumes "n \<in> set names" "map_of d n = None"
  shows "\<exists>m. select_columns d names = Inl (Exn KeyError m)"
proof -
  have "n \<in> set (filter (\<lambda>n. map_of d n = None) names)" using assms by simp
  then obtain x xs where "filter (\<lambda>n. map_of d n = None) names = x # xs"
    by (cases "filter (\<lambda>n. map_of d n = None) names") auto
  then show ?thesis by (simp add: select_columns_def)
qed


lemmas predict_churn_unfold = predict_churn_def predict_churn_body_def and_then_def
  select_columns_def np_index_def risk_level_def


lemma demo_loyal_customer:
  "predict_churn (PyModel demo_classifier) (PyChurnInfo demo_info)
     [(''age'', VInt 55), (''tenure'', VInt 60)]
   = [(''prediction'', VInt 0), (''churn_probability'', VFloat 0.1),
      (''no_churn_probability'', VFloat 0.9), (''risk_level'', VStr ''Low''),
      (''prediction_label'', VStr ''No Churn'')]"
  by (simp add: predict_churn_unfold demo_classifier_def demo_info_def)

lemma demo_missing_tenure:
  "\<exists>m. select_columns [(''age'', VInt 25)] (feature_names demo_info) = Inl (Exn KeyError m)
     \<and> predict_churn (PyModel demo_classifier) (PyChurnInfo demo_info) [(''age'', VInt 25)]
         = [(''error'', VStr m)]"
  by (simp add: predict_churn_unfold demo_classifier_def demo_info_def)


lemma predict_churn_without_artifacts:
  "predict_churn PyNone PyNone d = [(''error'', VStr ''NoneType object is not subscriptable'')]"
  by (simp add: predict_churn_unfold)

section \<open>The predictor: claims\<close>



text \<open>
  Claim C2, as stated, fails: a mapping with a name that is not in the schema is not
  rejected. With the schema \<open>[age, tenure]\<close>, the extra name \<open>shoe_size\<close> is dropped by the
  column selection and the prediction succeeds.
\<close>

theorem extra_feature_not_rejected:
  "predict_churn (PyModel demo_classifier) (PyChurnInfo demo_info)
     [(''age'', VInt 25), (''tenure'', VInt 3), (''shoe_size'', VInt 44)]
   = [(''prediction'', VInt 1), (''churn_probability'', VFloat 0.7),
      (''no_churn_probability'', VFloat 0.3), (''risk_level'', VStr ''Medium''),
      (''prediction_label'', VStr ''Churn'')]"
  by (simp add: predict_churn_unfold demo_classifier_def demo_info_def)

text \<open>
  Claim C2, amended. Names of the mapping that are not in the schema are ignored: the
  result is that of the mapping without them. If a name of the schema is absent from the
  mapping, the column selection raises a \<^verbatim>\<open>KeyError\<close> and \<open>predict_churn\<close> returns the
  dictionary whose single key \<open>error\<close> holds \<^verbatim>\<open>str(e)\<close> of that very exception; nothing
  is raised.
\<close>

theorem predict_churn_schema:
  "predict_churn model (PyChurnInfo i) d
     = predict_churn model (PyChurnInfo i) (filter (\<lambda>(k, v). k \<in> set (feature_names i)) d)
   \<and> (n \<in> set (feature_names i) \<and> n \<notin> fst ` set d \<longrightarrow>
        (\<exists>m. select_columns d (feature_names i) = Inl (Exn KeyError m)
           \<and> predict_churn model (PyChurnInfo i) d
               = [(''error'', VStr (str_exn (Exn KeyError m)))]))"
proof
  show "predict_churn model (PyChurnInfo i) d
     = predict_churn model (PyChurnInfo i) (filter (\<lambda>(k, v). k \<in> set (feature_names i)) d)"
    by (rule predict_churn_cong) (simp add: map_of_filter_key)
next
  show "n \<in> set (feature_names i) \<and> n \<notin> fst ` set d \<longrightarrow>
        (\<exists>m. select_columns d (feature_names i) = Inl (Exn KeyError m)
           \<and> predict_churn model (PyChurnInfo i) d
               = [(''error'', VStr (str_exn (Exn KeyError m)))])"
  proof
    assume a: "n \<in> set (feature_names i) \<and> n \<notin> fst ` set d"
    then have "map_of d n = None" by (simp add: map_of_eq_None_iff)
    with a obtain m where m: "select_columns d (feature_names i) = Inl (Exn KeyError m)"
      using select_columns_missing by blast
    then have "predict_churn model (PyChurnInfo i) d
               = [(''error'', VStr (str_exn (Exn KeyError m)))]"
      by (simp add: predict_churn_def predict_churn_body_def and_then_def)
    with m show "\<exists>m. select_columns d (feature_names i) = Inl (Exn KeyError m)
           \<and> predict_churn model (PyChurnInfo i) d
               = [(''error'', VStr (str_exn (Exn KeyError m)))]"
      by blast
  qed
qed

text \<open>
  Witness for the amended C2: \<open>shoe_size\<close> is ignored, and a mapping without \<open>tenure\<close>
  gives the error dictionary with the message of the selection's \<^verbatim>\<open>KeyError\<close>.
\<close>

theorem predict_churn_schema_witness:
  "predict_churn (PyModel demo_classifier) (PyChurnInfo demo_info)
       [(''age'', VInt 25), (''shoe_size'', VInt 44), (''tenure'', VInt 3)]
     = predict_churn (PyModel demo_classifier) (PyChurnInfo demo_info)
       [(''age'', VInt 25), (''tenure'', VInt 3)]
   \<and> (\<exists>m. select_columns [(''age'', VInt 25), (''shoe_size'', VInt 44)] (feature_names demo_info)
            = Inl (Exn KeyError m)
         \<and> predict_churn (PyModel demo_classifier) (PyChurnInfo demo_info)
              [(''age'', VInt 25), (''shoe_size'', VInt 44)]
            = [(''error'', VStr (str_exn (Exn KeyError m)))])"
proof -
  have f: "filter (\<lambda>(k, v). k \<in> set (feature_names demo_info))
             [(''age'', VInt 25), (''shoe_size'', VInt 44), (''tenure'', VInt 3)]
           = [(''age'', VInt 25), (''tenure'', VInt 3)]"
    by (simp add: demo_info_def)
  have h: "''tenure'' \<in> set (feature_names demo_info)
           \<and> ''tenure'' \<notin> fst ` set [(''age'', VInt 25), (''shoe_size'', VInt 44)]"
    by (simp add: demo_info_def)
  have dropped: "predict_churn (PyModel demo_classifier) (PyChurnInfo demo_info)
       [(''age'', VInt 25), (''shoe_size'', VInt 44), (''tenure'', VInt 3)]
     = predict_churn (PyModel demo_classifier) (PyChurnInfo demo_info)
       [(''age'', VInt 25), (''tenure'', VInt 3)]"
    using predict_churn_schema [of "PyModel demo_classifier" demo_info
      "[(''age'', VInt 25), (''shoe_size'', VInt 44), (''tenure'', VInt 3)]" "''age''",
      THEN conjunct1]
    unfolding f .
  have missing: "\<exists>m. select_columns [(''age'', VInt 25), (''shoe_size'', VInt 44)]
              (feature_names demo_info) = Inl (Exn KeyError m)
         \<and> predict_churn (PyModel demo_classifier) (PyChurnInfo demo_info)
              [(''age'', VInt 25), (''shoe_size'', VInt 44)]
            = [(''error'', VStr (str_exn (Exn KeyError m)))]"
    using predict_churn_schema [of "PyModel demo_classifier" demo_info
      "[(''age'', VInt 25), (''shoe_size'', VInt 44)]" "''tenure''", THEN conjunct2] h
    by (rule mp)
  from dropped missing show ?thesis by (rule conjI)
qed




text \<open>
  Claim C10. \<open>predict_churn\<close> always returns a dictionary and raises nothing: when its
  body succeeds, the result with the keys \<open>prediction\<close>, \<open>churn_probability\<close>,
  \<open>no_churn_probability\<close>, \<open>risk_level\<close>, \<open>prediction_label\<close>; when its body raises \<open>e\<close>,
  the dictionary with the single key \<open>error\<close> holding \<^verbatim>\<open>str(e)\<close>.
\<close>

theorem predict_churn_returns_dict:
  "(case predict_churn_body model model_info customer_data of
      Inr result \<Rightarrow>
        predict_churn model model_info customer_data = result
        \<and> map fst result = [''prediction'', ''churn_probability'', ''no_churn_probability'',
                             ''risk_level'', ''prediction_label'']
    | Inl e \<Rightarrow> predict_churn model model_info customer_data = [(''error'', VStr (str_exn e))])"
  unfolding predict_churn_def predict_churn_body_def and_then_def
  by (auto split: sum.splits)

section \<open>The synthesizers: lemmas\<close>

lemma draws_length: "draws d k g = (xs, g') \<Longrightarrow> length xs = k"
  by (induction k arbitrary: g xs) (auto split: prod.splits)

lemma sized_neg:
  "sz < 0 \<Longrightarrow> sized d sz g = Inl (Exn ValueError ''negative dimensions are not allowed'')"
  by (simp add: sized_def)

lemma sized_nonneg: "0 \<le> sz \<Longrightarrow> sized d sz g = Inr (draws d (nat sz) g)"
  by (simp add: sized_def)

lemmas sampler_defs = np_random_seed_def np_random_randint_def np_random_uniform_def
  np_random_normal_def np_random_choice_def np_random_binomial_def

text \<open>A negative size is refused by the first sampler that is called.\<close>

lemma generate_sample_data_negative:
  "n < 0 \<Longrightarrow>
   generate_sample_data R n g = Inl (Exn ValueError ''negative dimensions are not allowed'')"
  by (simp add: generate_sample_data_def rng_then_def sampler_defs sized_neg)

lemma generate_synthetic_data_negative:
  "n < 0 \<Longrightarrow>
   generate_synthetic_data R n g = Inl (Exn ValueError ''negative dimensions are not allowed'')"
  by (simp add: generate_synthetic_data_def rng_then_def sampler_defs sized_neg)

text \<open>
  For every other size the price synthesizer returns a frame whose price column has one
  entry per row, none below the floor.
\<close>

lemma generate_sample_data_returns:
  assumes "0 \<le> n"
  shows "\<exists>d g' ps. generate_sample_data R n g = Inr (d, g')
           \<and> map_of d ''price'' = Some (FloatCol ps) \<and> length ps = nat n
           \<and> (\<forall>p\<in>set ps. 50000 \<le> p)"
proof -
  define g0 where "g0 = seed_state R 42"
  obtain bedrooms g1 where 1: "draws (draw_randint R 1 6) (nat n) g0 = (bedrooms, g1)"
    by fastforce
  obtain bathrooms g2 where 2: "draws (draw_randint R 1 4) (nat n) g1 = (bathrooms, g2)"
    by fastforce
  obtain sqft g3 where 3: "draws (draw_randint R 800 4000) (nat n) g2 = (sqft, g3)"
    by fastforce
  obtain age g4 where 4: "draws (draw_randint R 0 50) (nat n) g3 = (age, g4)"
    by fastforce
  obtain noise g5 where 5: "draws (draw_normal R 0 20000) (nat n) g4 = (noise, g5)"
    by fastforce
  have len: "length bedrooms = nat n" "length bathrooms = nat n" "length sqft = nat n"
    "length age = nat n" "length noise = nat n"
    using draws_length [OF 1] draws_length [OF 2] draws_length [OF 3] draws_length [OF 4]
      draws_length [OF 5]
    by simp_all
  show ?thesis
    using assms len
    by (simp add: generate_sample_data_def rng_then_def rng_return_def sampler_defs
        sized_nonneg g0_def [symmetric] 1 2 3 4 5 Let_def)
qed

lemma generate_synthetic_data_returns:
  assumes "0 \<le> n"
  shows "\<exists>d g' cs. generate_synthetic_data R n g = Inr (d, g')
           \<and> map_of d ''total_charges'' = Some (FloatCol cs) \<and> length cs = nat n
           \<and> (\<forall>c\<in>set cs. 20 \<le> c)"
proof -
  define g0 where "g0 = seed_state R 42"
  obtain age g1 where 1: "draws (draw_randint R 18 81) (nat n) g0 = (age, g1)"
    by fastforce
  obtain tenure g2 where 2: "draws (draw_randint R 1 73) (nat n) g1 = (tenure, g2)"
    by fastforce
  obtain monthly g3 where 3: "draws (draw_uniform R 20 120) (nat n) g2 = (monthly, g3)"
    by fastforce
  obtain noise g4 where 4: "draws (draw_normal R 0 100) (nat n) g3 = (noise, g4)"
    by fastforce
  obtain contract g5
    where 5: "draws (draw_choice R [0, 1, 2] [0.5, 0.3, 0.2]) (nat n) g4 = (contract, g5)"
    by fastforce
  obtain payment g6
    where 6: "draws (draw_choice R [0, 1, 2, 3] [0.4, 0.2, 0.2, 0.2]) (nat n) g5 = (payment, g6)"
    by fastforce
  obtain internet g7
    where 7: "draws (draw_choice R [0, 1, 2] [0.4, 0.4, 0.2]) (nat n) g6 = (internet, g7)"
    by fastforce
  obtain tech g8
    where 8: "draws (draw_choice R [0, 1] [0.6, 0.4]) (nat n) g7 = (tech, g8)"
    by fastforce
  have len: "length tenure = nat n" "length monthly = nat n" "length noise = nat n"
    using draws_length [OF 2] draws_length [OF 3] draws_length [OF 4] by simp_all
  show ?thesis
    using assms len
    by (simp add: generate_synthetic_data_def rng_then_def rng_return_def sampler_defs
        sized_nonneg g0_def [symmetric] 1 2 3 4 5 6 7 8 Let_def split: prod.splits)
qed

text \<open>
  Two runs on the demo generator. In the first two rows of the price data and in the
  first row of the churn data the noise is large and negative, and the floor is the value.
\<close>

lemma draws_2:
  "draws d 2 g = (case d g of (x, g1) \<Rightarrow> (case d g1 of (y, g2) \<Rightarrow> ([x, y], g2)))"
  by (simp add: numeral_2_eq_2 split: prod.splits)

lemma draws_3:
  "draws d 3 g = (case d g of (x, g1) \<Rightarrow> (case d g1 of (y, g2) \<Rightarrow>
     (case d g2 of (z, g3) \<Rightarrow> ([x, y, z], g3))))"
  by (simp add: numeral_3_eq_3 split: prod.splits)

lemma demo_price_data:
  "generate_sample_data demo_random 3 0
   = Inr ([(''bedrooms'', IntCol [3, 4, 5]), (''bathrooms'', IntCol [1, 2, 3]),
           (''sqft'', IntCol [848, 849, 850]), (''age'', IntCol [1, 2, 3]),
           (''price'', FloatCol [50000, 50000, 302000])], 57)"
proof -
  have 1: "draws (draw_randint demo_random 1 6) 3 42 = ([3, 4, 5], 45)"
    by (simp add: demo_random_def draws_3)
  have 2: "draws (draw_randint demo_random 1 4) 3 45 = ([1, 2, 3], 48)"
    by (simp add: demo_random_def draws_3)
  have 3: "draws (draw_randint demo_random 800 4000) 3 48 = ([848, 849, 850], 51)"
    by (simp add: demo_random_def draws_3)
  have 4: "draws (draw_randint demo_random 0 50) 3 51 = ([1, 2, 3], 54)"
    by (simp add: demo_random_def draws_3)
  have 5: "draws (draw_normal demo_random 0 20000) 3 54 = ([- 5000000, - 6000000, 0], 57)"
    by (simp add: demo_random_def draws_3)
  have s: "seed_state demo_random 42 = 42"
    by (simp add: demo_random_def)
  show ?thesis
    by (simp add: generate_sample_data_def rng_then_def rng_return_def sampler_defs
        sized_nonneg s 1 2 3 4 5)
qed


lemma demo_churn_data:
  "generate_synthetic_data demo_random 2 0
   = Inr ([(''age'', IntCol [60, 61]), (''tenure'', IntCol [45, 46]),
           (''monthly_charges'', FloatCol [80, 90]),
           (''total_charges'', FloatCol [20, 4140]),
           (''contract_type'', IntCol [2, 0]), (''payment_method'', IntCol [0, 1]),
           (''internet_service'', IntCol [0, 1]), (''tech_support'', IntCol [0, 1]),
           (''churn'', IntCol [0, 0])], 60)"
proof -
  have 1: "draws (draw_randint demo_random 18 81) 2 42 = ([60, 61], 44)"
    by (simp add: demo_random_def draws_2)
  have 2: "draws (draw_randint demo_random 1 73) 2 44 = ([45, 46], 46)"
    by (simp add: demo_random_def draws_2)
  have 3: "draws (draw_uniform demo_random 20 120) 2 46 = ([80, 90], 48)"
    by (simp add: demo_random_def draws_2)
  have 4: "draws (draw_normal demo_random 0 100) 2 48 = ([- 30000, 0], 50)"
    by (simp add: demo_random_def draws_2)
  have 5: "draws (draw_choice demo_random [0, 1, 2] p) 2 50 = ([2, 0], 52)" for p
    by (simp add: demo_random_def draws_2)
  have 6: "draws (draw_choice demo_random [0, 1, 2, 3] p) 2 52 = ([0, 1], 54)" for p
    by (simp add: demo_random_def draws_2)
  have 7: "draws (draw_choice demo_random [0, 1, 2] p) 2 54 = ([0, 1], 56)" for p
    by (simp add: demo_random_def draws_2)
  have 8: "draws (draw_choice demo_random [0, 1] p) 2 56 = ([0, 1], 58)" for p
    by (simp add: demo_random_def draws_2 numeral_2_eq_2 [symmetric])
  have 9: "draw_binomial demo_random k (1 / 4) 58 = (0, 59)"
    "draw_binomial demo_random k (7 / 20) 59 = (0, 60)" for k
    by (simp_all add: demo_random_def)
  have s: "seed_state demo_random 42 = 42"
    by (simp add: demo_random_def)
  show ?thesis
    by (simp add: generate_synthetic_data_def rng_then_def rng_return_def sampler_defs
        sized_nonneg s 1 2 3 4 5 6 7 8 9 np_clip_def)
qed

section \<open>The synthesizers: claims\<close>

text \<open>
  Claim C4, as stated, fails at \<open>n = 0\<close>: the synthesizers have no check of their own
  on \<open>n\<close>, and numpy's samplers accept the size 0. Both calls return a dataset with no
  rows instead of an error.
\<close>

theorem zero_samples_not_rejected:
  "generate_sample_data demo_random 0 0
     = Inr ([(''bedrooms'', IntCol []), (''bathrooms'', IntCol []), (''sqft'', IntCol []),
             (''age'', IntCol []), (''price'', FloatCol [])], 42)
   \<and> generate_synthetic_data demo_random 0 0
     = Inr ([(''age'', IntCol []), (''tenure'', IntCol []), (''monthly_charges'', FloatCol []),
             (''total_charges'', FloatCol []), (''contract_type'', IntCol []),
             (''payment_method'', IntCol []), (''internet_service'', IntCol []),
             (''tech_support'', IntCol []), (''churn'', IntCol [])], 42)"
  by (simp add: generate_sample_data_def generate_synthetic_data_def rng_then_def rng_return_def
      sampler_defs sized_nonneg demo_random_def)

text \<open>
  Claim C4, amended. For every integer \<open>n < 0\<close> both synthesizers fail with the
  \<^verbatim>\<open>ValueError\<close> of the first sampler; for every integer \<open>n\<close> from 0 (zero included) to
  below 2 to the power 31 they return a dataset. Nothing is stated of larger sizes, which
  numpy refuses as well once they pass the range of its array index type.
\<close>

theorem synthesizer_size_check:
  "(n < 0 \<longrightarrow>
      generate_sample_data R n g = Inl (Exn ValueError ''negative dimensions are not allowed'')
      \<and> generate_synthetic_data R n g = Inl (Exn ValueError ''negative dimensions are not allowed''))
   \<and> (0 \<le> n \<and> n < 2 ^ 31 \<longrightarrow>
      (\<exists>d g'. generate_sample_data R n g = Inr (d, g'))
      \<and> (\<exists>d g'. generate_synthetic_data R n g = Inr (d, g')))"
  using generate_sample_data_negative [of n R g] generate_synthetic_data_negative [of n R g]
    generate_sample_data_returns [of n R g] generate_synthetic_data_returns [of n R g]
  by blast

text \<open>Witness for the amended C4: the sizes \<open>- 1\<close> and \<open>1000\<close> on the demo generator.\<close>

theorem synthesizer_size_check_witness:
  "generate_sample_data demo_random (- 1) 0
     = Inl (Exn ValueError ''negative dimensions are not allowed'')
   \<and> generate_synthetic_data demo_random (- 1) 0
     = Inl (Exn ValueError ''negative dimensions are not allowed'')
   \<and> (\<exists>d g'. generate_sample_data demo_random 1000 0 = Inr (d, g'))
   \<and> (\<exists>d g'. generate_synthetic_data demo_random 1000 0 = Inr (d, g'))"
  using synthesizer_size_check [of "- 1" demo_random 0] synthesizer_size_check [of 1000 demo_random 0]
  by simp

text \<open>
  Claim C5. For every generator (so for every seed and every noise draw) and every
  positive \<open>n\<close>, the price synthesizer returns \<open>n\<close> rows whose price is at least 50000,
  and the churn synthesizer returns \<open>n\<close> rows whose \<open>total_charges\<close> is at least 20.
\<close>

theorem synthesizer_floors:
  assumes "0 < n"
  shows "(\<exists>d g' ps. generate_sample_data R n g = Inr (d, g')
           \<and> map_of d ''price'' = Some (FloatCol ps) \<and> length ps = nat n
           \<and> (\<forall>p\<in>set ps. 50000 \<le> p))
       \<and> (\<exists>d g' cs. generate_synthetic_data R n g = Inr (d, g')
           \<and> map_of d ''total_charges'' = Some (FloatCol cs) \<and> length cs = nat n
           \<and> (\<forall>c\<in>set cs. 20 \<le> c))"
  using assms generate_sample_data_returns [of n R g] generate_synthetic_data_returns [of n R g]
  by simp

text \<open>Witness for C5: 1000 rows from the demo generator.\<close>

theorem synthesizer_floors_witness:
  "(\<exists>d g' ps. generate_sample_data demo_random 1000 0 = Inr (d, g')
           \<and> map_of d ''price'' = Some (FloatCol ps) \<and> length ps = nat 1000
           \<and> (\<forall>p\<in>set ps. 50000 \<le> p))
       \<and> (\<exists>d g' cs. generate_synthetic_data demo_random 1000 0 = Inr (d, g')
           \<and> map_of d ''total_charges'' = Some (FloatCol cs) \<and> length cs = nat 1000
           \<and> (\<forall>c\<in>set cs. 20 \<le> c))"
  by (rule synthesizer_floors) simp

text \<open>
  Claim C6. The synthesizers are deterministic: each call seeds the generator with 42
  before its first draw, so two calls with the same \<open>n\<close> return the same dataset (the
  same columns, rows and labels, in the same order) and leave the same generator state,
  whatever the state \<open>g\<close> or \<open>g'\<close> of the global generator before the call.
\<close>

theorem synthesizer_deterministic:
  "generate_sample_data R n g = generate_sample_data R n g'
   \<and> generate_synthetic_data R n g = generate_synthetic_data R n g'"
  by (simp add: generate_sample_data_def generate_synthetic_data_def rng_then_def
      np_random_seed_def)

section \<open>Artifact files: lemmas\<close>

lemmas io_defs = io_then_def io_return_def py_print_def except_FileNotFoundError_def
  joblib_load_def joblib_dump_def json_load_file_def json_dump_file_def write_file_def
  no_such_file_def

lemma load_model_churn_no_model:
  "files w ''customer_churn_model.pkl'' = None \<Longrightarrow>
   load_model_churn w = (Inr (PyNone, PyNone),
      w\<lparr>stdout := stdout w @ not_found_report_churn ''customer_churn_model.pkl''\<rparr>)"
  by (simp add: load_model_churn_def io_defs not_found_report_churn_def)

lemma load_model_churn_no_info:
  "files w ''customer_churn_model.pkl'' = Some (Pickle obj) \<Longrightarrow>
   files w ''model_info.pkl'' = None \<Longrightarrow>
   load_model_churn w = (Inr (PyNone, PyNone),
      w\<lparr>stdout := stdout w @ not_found_report_churn ''model_info.pkl''\<rparr>)"
  by (simp add: load_model_churn_def io_defs not_found_report_churn_def)

lemma load_model_house_no_model:
  "files w ''house_price_model.pkl'' = None \<Longrightarrow>
   load_model_house w = (Inr (PyNone, PyNone),
      w\<lparr>stdout := stdout w @ not_found_report_house ''house_price_model.pkl''\<rparr>)"
  by (simp add: load_model_house_def io_defs not_found_report_house_def)

lemma load_model_house_no_info:
  "files w ''house_price_model.pkl'' = Some (Pickle obj) \<Longrightarrow>
   files w ''model_info.json'' = None \<Longrightarrow>
   load_model_house w = (Inr (PyNone, PyNone),
      w\<lparr>stdout := stdout w @ not_found_report_house ''model_info.json''\<rparr>)"
  by (simp add: load_model_house_def io_defs not_found_report_house_def)

lemma load_model_churn_both:
  "files w ''customer_churn_model.pkl'' = Some (Pickle a) \<Longrightarrow>
   files w ''model_info.pkl'' = Some (Pickle b) \<Longrightarrow>
   load_model_churn w = (Inr (a, b), w)"
  by (simp add: load_model_churn_def io_defs)

lemma load_model_house_both:
  "files w ''house_price_model.pkl'' = Some (Pickle a) \<Longrightarrow>
   files w ''model_info.json'' = Some (Json b) \<Longrightarrow>
   load_model_house w = (Inr (a, PyHouseInfo b), w)"
  by (simp add: load_model_house_def io_defs)

text \<open>
  The three ways a save can end: both files written; nothing written (the write of the
  model failed); the model written and the metadata not (the second write failed).
\<close>

lemma train_model_save_churn_cases:
  "train_model_save_churn model acc imp w = (r, w1) \<Longrightarrow>
   (r = Inr () \<and> files w1 = (files w)(''customer_churn_model.pkl'' \<mapsto> Pickle (PyModel model),
        ''model_info.pkl'' \<mapsto> Pickle (PyChurnInfo \<lparr>feature_names = feature_columns,
             model_type = ''RandomForestClassifier'', accuracy = acc, feature_importance = imp\<rparr>)))
   \<or> ((\<exists>e. r = Inl e) \<and> files w1 = files w)
   \<or> ((\<exists>e. r = Inl e)
        \<and> files w1 = (files w)(''customer_churn_model.pkl'' \<mapsto> Pickle (PyModel model)))"
  by (auto simp: train_model_save_churn_def io_defs Let_def split: if_splits)

lemma train_model_save_house_cases:
  "train_model_save_house model r2 mse w = (r, w1) \<Longrightarrow>
   (r = Inr () \<and> (\<exists>info. files w1 = (files w)(''house_price_model.pkl'' \<mapsto> Pickle (PyModel model),
        ''model_info.json'' \<mapsto> Json info)
        \<and> features info = [''bedrooms'', ''bathrooms'', ''sqft'', ''age'']
        \<and> r2_score info = r2 \<and> rmse info = sqrt mse))
   \<or> ((\<exists>e. r = Inl e) \<and> files w1 = files w)
   \<or> ((\<exists>e. r = Inl e)
        \<and> files w1 = (files w)(''house_price_model.pkl'' \<mapsto> Pickle (PyModel model)))"
  by (auto simp: train_model_save_house_def io_defs Let_def split: if_splits)

text \<open>Saving into the empty directory completes.\<close>

lemma demo_save_churn:
  "fst (train_model_save_churn model acc imp empty_directory) = Inr ()"
  by (simp add: train_model_save_churn_def io_defs empty_directory_def Let_def)

lemma demo_save_house:
  "fst (train_model_save_house model r2 mse empty_directory) = Inr ()"
  by (simp add: train_model_save_house_def io_defs empty_directory_def Let_def)

section \<open>Artifact files: claims\<close>

text \<open>
  Claim C3, as stated, fails: with the metadata file missing and a model file that is
  present but is not a pickle, \<open>load_model\<close> does not report a missing artifact. The
  handler catches \<^verbatim>\<open>FileNotFoundError\<close> only, and the error of unpickling the model
  file, which is read first, propagates to the caller.
\<close>

theorem load_model_unreadable_model_file:
  "files damaged_model_file ''model_info.pkl'' = None
   \<and> load_model_churn damaged_model_file
       = (Inl (Exn UnpicklingError ''invalid load key''), damaged_model_file)"
  by (simp add: damaged_model_file_def load_model_churn_def io_defs)

text \<open>
  Claim C3, amended. If the model file is missing, or the model file is a pickle and
  the metadata file is missing, \<open>load_model\<close> (of either pipeline) raises nothing: it
  prints the \<^verbatim>\<open>FileNotFoundError\<close> and the instruction to run the training script first,
  and returns \<open>(None, None)\<close>, which its caller can test. Nothing else of the world
  changes.
\<close>

theorem load_model_not_found:
  "(files w ''customer_churn_model.pkl'' = None \<longrightarrow>
      load_model_churn w = (Inr (PyNone, PyNone),
        w\<lparr>stdout := stdout w @ not_found_report_churn ''customer_churn_model.pkl''\<rparr>))
   \<and> (files w ''customer_churn_model.pkl'' = Some (Pickle obj) \<and> files w ''model_info.pkl'' = None \<longrightarrow>
      load_model_churn w = (Inr (PyNone, PyNone),
        w\<lparr>stdout := stdout w @ not_found_report_churn ''model_info.pkl''\<rparr>))
   \<and> (files w ''house_price_model.pkl'' = None \<longrightarrow>
      load_model_house w = (Inr (PyNone, PyNone),
        w\<lparr>stdout := stdout w @ not_found_report_house ''house_price_model.pkl''\<rparr>))
   \<and> (files w ''house_price_model.pkl'' = Some (Pickle obj) \<and> files w ''model_info.json'' = None \<longrightarrow>
      load_model_house w = (Inr (PyNone, PyNone),
        w\<lparr>stdout := stdout w @ not_found_report_house ''model_info.json''\<rparr>))"
  using load_model_churn_no_model [of w] load_model_churn_no_info [of w obj]
    load_model_house_no_model [of w] load_model_house_no_info [of w obj]
  by blast

text \<open>
  Witness for the amended C3: the empty directory and a directory with the model file
  only, for each pipeline.
\<close>

theorem load_model_not_found_witness:
  "load_model_churn (empty_directory :: classifier world)
     = (Inr (PyNone, PyNone),
        empty_directory\<lparr>stdout := not_found_report_churn ''customer_churn_model.pkl''\<rparr>)
   \<and> load_model_churn churn_model_only
     = (Inr (PyNone, PyNone),
        churn_model_only\<lparr>stdout := not_found_report_churn ''model_info.pkl''\<rparr>)
   \<and> load_model_house (empty_directory :: (int list \<Rightarrow> real) world)
     = (Inr (PyNone, PyNone),
        empty_directory\<lparr>stdout := not_found_report_house ''house_price_model.pkl''\<rparr>)
   \<and> load_model_house house_model_only
     = (Inr (PyNone, PyNone),
        house_model_only\<lparr>stdout := not_found_report_house ''model_info.json''\<rparr>)"
proof -
  have e: "files (empty_directory :: 'm world) p = None" "stdout (empty_directory :: 'm world) = []" for p
    by (simp_all add: empty_directory_def)
  have c: "files churn_model_only ''customer_churn_model.pkl'' = Some (Pickle (PyModel demo_classifier))
           \<and> files churn_model_only ''model_info.pkl'' = None"
    "stdout churn_model_only = []"
    by (simp_all add: churn_model_only_def)
  have h: "files house_model_only ''house_price_model.pkl'' = Some (Pickle (PyModel demo_regressor))
           \<and> files house_model_only ''model_info.json'' = None"
    "stdout house_model_only = []"
    by (simp_all add: house_model_only_def)
  show ?thesis
    using load_model_not_found [of "empty_directory :: classifier world" PyNone]
      load_model_not_found [of churn_model_only "PyModel demo_classifier"]
      load_model_not_found [of "empty_directory :: (int list \<Rightarrow> real) world" PyNone]
      load_model_not_found [of house_model_only "PyModel demo_regressor"]
    by (simp add: e c h)
qed

text \<open>
  Claim C7. Whenever the save of \<open>train_model\<close> completes, \<open>load_model\<close> on the
  resulting files returns the model that was saved and a metadata object with the same
  feature names, in the same order, and the same performance metrics (accuracy and
  feature importance for the churn pipeline; the R2 score and the RMSE for the house pipeline).
\<close>

theorem save_load_roundtrip:
  "(train_model_save_churn model acc imp w = (Inr (), w1) \<longrightarrow>
      (\<exists>info. load_model_churn w1 = (Inr (PyModel model, PyChurnInfo info), w1)
         \<and> feature_names info = feature_columns \<and> accuracy info = acc
         \<and> feature_importance info = imp))
   \<and> (train_model_save_house model r2 mse w = (Inr (), w2) \<longrightarrow>
      (\<exists>info. load_model_house w2 = (Inr (PyModel model, PyHouseInfo info), w2)
         \<and> features info = [''bedrooms'', ''bathrooms'', ''sqft'', ''age'']
         \<and> r2_score info = r2 \<and> rmse info = sqrt mse))"
proof (intro conjI impI)
  assume "train_model_save_churn model acc imp w = (Inr (), w1)"
  from train_model_save_churn_cases [OF this]
  have f: "files w1 = (files w)(''customer_churn_model.pkl'' \<mapsto> Pickle (PyModel model),
        ''model_info.pkl'' \<mapsto> Pickle (PyChurnInfo \<lparr>feature_names = feature_columns,
             model_type = ''RandomForestClassifier'', accuracy = acc, feature_importance = imp\<rparr>))"
    by auto
  have "load_model_churn w1 = (Inr (PyModel model, PyChurnInfo \<lparr>feature_names = feature_columns,
             model_type = ''RandomForestClassifier'', accuracy = acc, feature_importance = imp\<rparr>), w1)"
    by (rule load_model_churn_both) (simp_all add: f)
  then show "\<exists>info. load_model_churn w1 = (Inr (PyModel model, PyChurnInfo info), w1)
         \<and> feature_names info = feature_columns \<and> accuracy info = acc
         \<and> feature_importance info = imp"
    by simp
next
  assume "train_model_save_house model r2 mse w = (Inr (), w2)"
  from train_model_save_house_cases [OF this]
  obtain info where f: "files w2 = (files w)(''house_price_model.pkl'' \<mapsto> Pickle (PyModel model),
        ''model_info.json'' \<mapsto> Json info)"
    and i: "features info = [''bedrooms'', ''bathrooms'', ''sqft'', ''age'']"
       "r2_score info = r2" "rmse info = sqrt mse"
    by auto
  have "load_model_house w2 = (Inr (PyModel model, PyHouseInfo info), w2)"
    by (rule load_model_house_both) (simp_all add: f)
  with i show "\<exists>info. load_model_house w2 = (Inr (PyModel model, PyHouseInfo info), w2)
         \<and> features info = [''bedrooms'', ''bathrooms'', ''sqft'', ''age'']
         \<and> r2_score info = r2 \<and> rmse info = sqrt mse"
    by blast
qed

text \<open>Witness for C7: a save into the empty directory, for each pipeline.\<close>

theorem save_load_roundtrip_witness:
  "(\<exists>info. load_model_churn
        (snd (train_model_save_churn demo_classifier 0.8 [(''tenure'', 0.6), (''age'', 0.4)] empty_directory))
      = (Inr (PyModel demo_classifier, PyChurnInfo info),
         snd (train_model_save_churn demo_classifier 0.8 [(''tenure'', 0.6), (''age'', 0.4)] empty_directory))
      \<and> feature_names info = feature_columns \<and> accuracy info = 0.8
      \<and> feature_importance info = [(''tenure'', 0.6), (''age'', 0.4)])
   \<and> (\<exists>info. load_model_house
        (snd (train_model_save_house demo_regressor 0.9 4 empty_directory))
      = (Inr (PyModel demo_regressor, PyHouseInfo info),
         snd (train_model_save_house demo_regressor 0.9 4 empty_directory))
      \<and> features info = [''bedrooms'', ''bathrooms'', ''sqft'', ''age'']
      \<and> r2_score info = 0.9 \<and> rmse info = sqrt 4)"
proof -
  have c: "train_model_save_churn demo_classifier 0.8 [(''tenure'', 0.6), (''age'', 0.4)] empty_directory
     = (Inr (), snd (train_model_save_churn demo_classifier 0.8 [(''tenure'', 0.6), (''age'', 0.4)] empty_directory))"
    using demo_save_churn [of demo_classifier "0.8" "[(''tenure'', 0.6), (''age'', 0.4)]"]
    by (simp add: prod_eq_iff)
  have h: "train_model_save_house demo_regressor 0.9 4 empty_directory
     = (Inr (), snd (train_model_save_house demo_regressor 0.9 4 empty_directory))"
    using demo_save_house [of demo_regressor "0.9" 4]
    by (simp add: prod_eq_iff)
  from save_load_roundtrip [THEN conjunct1, THEN mp, OF c]
    save_load_roundtrip [THEN conjunct2, THEN mp, OF h]
  show ?thesis by (rule conjI)
qed

text \<open>
  Claim C8, as stated, fails: the two files are written by two separate statements, with
  no rollback. When \<^verbatim>\<open>model_info.pkl\<close> cannot be written, the save fails with the model
  file written and no metadata file beside it.
\<close>

theorem save_leaves_model_without_metadata:
  "fst (train_model_save_churn demo_classifier 0.8 [] protected_model_info)
     = Inl (Exn PermissionError (''[Errno 13] Permission denied: 'model_info.pkl'' @ [CHR 0x27]))
   \<and> files (snd (train_model_save_churn demo_classifier 0.8 [] protected_model_info))
        ''customer_churn_model.pkl'' = Some (Pickle (PyModel demo_classifier))
   \<and> files (snd (train_model_save_churn demo_classifier 0.8 [] protected_model_info))
        ''model_info.pkl'' = None"
  by (simp add: train_model_save_churn_def io_defs protected_model_info_def Let_def)

text \<open>
  Claim C8, amended. A save that completes has written both the model file and the
  metadata file. A save that fails has written nothing, or has written the model file
  only (the write of the metadata failed): the model file is always written first.
\<close>

theorem save_writes_model_first:
  "(train_model_save_churn model acc imp w = (r, w1) \<longrightarrow>
      (r = Inr () \<and> files w1 ''customer_churn_model.pkl'' = Some (Pickle (PyModel model))
         \<and> (\<exists>info. files w1 ''model_info.pkl'' = Some (Pickle (PyChurnInfo info))))
      \<or> ((\<exists>e. r = Inl e) \<and> files w1 = files w)
      \<or> ((\<exists>e. r = Inl e)
           \<and> files w1 = (files w)(''customer_churn_model.pkl'' \<mapsto> Pickle (PyModel model))))
   \<and> (train_model_save_house model r2 mse w = (r', w2) \<longrightarrow>
      (r' = Inr () \<and> files w2 ''house_price_model.pkl'' = Some (Pickle (PyModel model))
         \<and> (\<exists>info. files w2 ''model_info.json'' = Some (Json info)))
      \<or> ((\<exists>e. r' = Inl e) \<and> files w2 = files w)
      \<or> ((\<exists>e. r' = Inl e)
           \<and> files w2 = (files w)(''house_price_model.pkl'' \<mapsto> Pickle (PyModel model))))"
proof (intro conjI impI)
  assume "train_model_save_churn model acc imp w = (r, w1)"
  from train_model_save_churn_cases [OF this]
  show "(r = Inr () \<and> files w1 ''customer_churn_model.pkl'' = Some (Pickle (PyModel model))
         \<and> (\<exists>info. files w1 ''model_info.pkl'' = Some (Pickle (PyChurnInfo info))))
      \<or> ((\<exists>e. r = Inl e) \<and> files w1 = files w)
      \<or> ((\<exists>e. r = Inl e)
           \<and> files w1 = (files w)(''customer_churn_model.pkl'' \<mapsto> Pickle (PyModel model)))"
    by auto
next
  assume "train_model_save_house model r2 mse w = (r', w2)"
  from train_model_save_house_cases [OF this]
  show "(r' = Inr () \<and> files w2 ''house_price_model.pkl'' = Some (Pickle (PyModel model))
         \<and> (\<exists>info. files w2 ''model_info.json'' = Some (Json info)))
      \<or> ((\<exists>e. r' = Inl e) \<and> files w2 = files w)
      \<or> ((\<exists>e. r' = Inl e)
           \<and> files w2 = (files w)(''house_price_model.pkl'' \<mapsto> Pickle (PyModel model)))"
    by auto
qed

text \<open>Witness for the amended C8: a save into the empty directory writes both files.\<close>

theorem save_writes_model_first_witness:
  "files (snd (train_model_save_churn demo_classifier 0.8 [] empty_directory))
       ''customer_churn_model.pkl'' = Some (Pickle (PyModel demo_classifier))
   \<and> (\<exists>info. files (snd (train_model_save_churn demo_classifier 0.8 [] empty_directory))
       ''model_info.pkl'' = Some (Pickle (PyChurnInfo info)))
   \<and> files (snd (train_model_save_house demo_regressor 0.9 4 empty_directory))
       ''house_price_model.pkl'' = Some (Pickle (PyModel demo_regressor))
   \<and> (\<exists>info. files (snd (train_model_save_house demo_regressor 0.9 4 empty_directory))
       ''model_info.json'' = Some (Json info))"
proof -
  have c: "train_model_save_churn demo_classifier 0.8 [] empty_directory
     = (Inr (), snd (train_model_save_churn demo_classifier 0.8 [] empty_directory))"
    using demo_save_churn [of demo_classifier "0.8" "[]"] by (simp add: prod_eq_iff)
  have h: "train_model_save_house demo_regressor 0.9 4 empty_directory
     = (Inr (), snd (train_model_save_house demo_regressor 0.9 4 empty_directory))"
    using demo_save_house [of demo_regressor "0.9" 4] by (simp add: prod_eq_iff)
  from save_writes_model_first [THEN conjunct1, THEN mp, OF c]
    save_writes_model_first [THEN conjunct2, THEN mp, OF h]
  show ?thesis by simp
qed

end
